theory Spec2Isabelle
  imports Main "HOL-Library.Word" "HOL-Library.Sublist"
begin

unbundle bit_operations_syntax

section \<open>Data model of \<^verbatim>\<open>libs/libcommon/src/Backtrace.cpp\<close>\<close>

text \<open>
  A \<^verbatim>\<open>void *\<close> of the supported targets is a 64-bit machine address; the null pointer
  is the address \<open>0\<close>. A \<^verbatim>\<open>std::stringstream\<close> is the string written so far, and
  \<^verbatim>\<open><<\<close> appends to it.
\<close>

type_synonym addr = "64 word"

text \<open>The fields of \<^verbatim>\<open>siginfo_t\<close> that the code reads.\<close>

record siginfo_t =
  si_addr :: addr
  si_code :: int

text \<open>
  The registers of \<^verbatim>\<open>ucontext_t\<close> that the code reads. Each target has its own layout
  (\<^verbatim>\<open>uc_mcontext.gregs[REG_RIP]\<close> and \<^verbatim>\<open>gregs[REG_ERR]\<close>, \<^verbatim>\<open>uc_mcontext.mc_rip\<close>,
  \<^verbatim>\<open>uc_mcontext->__ss.__rip\<close>, \<^verbatim>\<open>uc_mcontext.pc\<close>); the record has one field for each.
\<close>

record ucontext_t =
  gregs_REG_RIP :: addr
  gregs_REG_ERR :: "64 word"
  mc_rip :: addr
  ss_rip :: addr
  mc_pc :: addr

text \<open>
  The preprocessor conditions of the file: \<^verbatim>\<open>USE_UNWIND\<close>, the instruction set
  (\<^verbatim>\<open>__x86_64__\<close>, \<^verbatim>\<open>__aarch64__\<close>, neither) and the operating system
  (\<^verbatim>\<open>__FreeBSD__\<close>, \<^verbatim>\<open>__APPLE__\<close>, neither).
\<close>

datatype arch = X86_64 | AArch64 | Other_Arch

datatype os = FreeBSD | Apple | Other_OS

record build =
  USE_UNWIND :: bool
  target_arch :: arch
  target_os :: os

text \<open>
  The signal numbers and \<^verbatim>\<open>si_code\<close> values come from the platform's \<^verbatim>\<open><signal.h>\<close>,
  which is not part of the sources: they are parameters. \<^verbatim>\<open>BUS_MCEERR_AR\<close> and
  \<^verbatim>\<open>BUS_MCEERR_AO\<close> are \<open>None\<close> on a platform that does not define them.
\<close>

record sigdefs =
  SIGSEGV :: int
  SIGBUS :: int
  SIGILL :: int
  SIGFPE :: int
  SEGV_ACCERR :: int
  SEGV_MAPERR :: int
  BUS_ADRALN :: int
  BUS_ADRERR :: int
  BUS_OBJERR :: int
  BUS_MCEERR_AR :: "int option"
  BUS_MCEERR_AO :: "int option"
  ILL_ILLOPC :: int
  ILL_ILLOPN :: int
  ILL_ILLADR :: int
  ILL_ILLTRP :: int
  ILL_PRVOPC :: int
  ILL_PRVREG :: int
  ILL_COPROC :: int
  ILL_BADSTK :: int
  FPE_INTDIV :: int
  FPE_INTOVF :: int
  FPE_FLTDIV :: int
  FPE_FLTOVF :: int
  FPE_FLTUND :: int
  FPE_FLTRES :: int
  FPE_FLTINV :: int
  FPE_FLTSUB :: int

text \<open>The labels of one \<^verbatim>\<open>switch\<close> are pairwise different: the compiler rejects the file otherwise.\<close>

definition bus_labels :: "sigdefs \<Rightarrow> int list" where
  "bus_labels K =
     [BUS_ADRALN K, BUS_ADRERR K, BUS_OBJERR K]
     @ (case BUS_MCEERR_AR K of Some c \<Rightarrow> [c] | None \<Rightarrow> [])
     @ (case BUS_MCEERR_AO K of Some c \<Rightarrow> [c] | None \<Rightarrow> [])"

definition wf_sigdefs :: "sigdefs \<Rightarrow> bool" where
  "wf_sigdefs K \<longleftrightarrow>
     distinct [SIGSEGV K, SIGBUS K, SIGILL K, SIGFPE K]
     \<and> distinct [SEGV_ACCERR K, SEGV_MAPERR K]
     \<and> distinct (bus_labels K)
     \<and> distinct [ILL_ILLOPC K, ILL_ILLOPN K, ILL_ILLADR K, ILL_ILLTRP K,
                 ILL_PRVOPC K, ILL_PRVREG K, ILL_COPROC K, ILL_BADSTK K]
     \<and> distinct [FPE_INTDIV K, FPE_INTOVF K, FPE_FLTDIV K, FPE_FLTOVF K,
                 FPE_FLTUND K, FPE_FLTRES K, FPE_FLTINV K, FPE_FLTSUB K]"

text \<open>The values of Linux on x86-64, for concrete evaluation.\<close>

definition linux_sigdefs :: sigdefs where
  "linux_sigdefs =
     \<lparr>SIGSEGV = 11, SIGBUS = 7, SIGILL = 4, SIGFPE = 8,
      SEGV_ACCERR = 2, SEGV_MAPERR = 1,
      BUS_ADRALN = 1, BUS_ADRERR = 2, BUS_OBJERR = 3,
      BUS_MCEERR_AR = Some 4, BUS_MCEERR_AO = Some 5,
      ILL_ILLOPC = 1, ILL_ILLOPN = 2, ILL_ILLADR = 3, ILL_ILLTRP = 4,
      ILL_PRVOPC = 5, ILL_PRVREG = 6, ILL_COPROC = 7, ILL_BADSTK = 8,
      FPE_INTDIV = 1, FPE_INTOVF = 2, FPE_FLTDIV = 3, FPE_FLTOVF = 4,
      FPE_FLTUND = 5, FPE_FLTRES = 6, FPE_FLTINV = 7, FPE_FLTSUB = 8\<rparr>"

definition linux_x86_64 :: build where
  "linux_x86_64 = \<lparr>USE_UNWIND = True, target_arch = X86_64, target_os = Other_OS\<rparr>"

text \<open>
  The library routines the file calls, none of them part of the sources:
  \<^item> \<open>show_ptr\<close>: the text \<^verbatim>\<open>operator<<\<close> writes for a \<^verbatim>\<open>void *\<close>;
  \<^item> \<open>backtrace_symbols\<close>: \<open>None\<close> is the null result, \<open>Some\<close> the array of lines;
  \<^item> \<open>cxa_demangle\<close>: the returned name (\<open>None\<close> is the null pointer) and the status
    written through the last argument.
\<close>

record libc =
  show_ptr :: "addr \<Rightarrow> string"
  backtrace_symbols :: "addr list \<Rightarrow> string list option"
  cxa_demangle :: "string \<Rightarrow> string option \<times> int"

text \<open>
  The unwinding library over its cursor type \<open>'c\<close>: every routine returns its status with
  the cursor it leaves behind; \<open>unw_get_reg\<close> gives the value it stores in \<^verbatim>\<open>ip\<close> (its
  status is ignored by the caller).
\<close>

record 'c unwinder =
  unw_init_local2 :: "ucontext_t \<Rightarrow> int \<times> 'c"
  unw_get_reg :: "'c \<Rightarrow> addr"
  unw_step :: "'c \<Rightarrow> int \<times> 'c"

section \<open>\<^verbatim>\<open>backtraceLibUnwind\<close>\<close>

text \<open>
  The \<^verbatim>\<open>for\<close> loop with its counter \<open>i\<close>, the cursor and the vector built so far.
  \<^verbatim>\<open>!unw_step(&cursor)\<close> holds exactly when the status is \<open>0\<close>.
\<close>

function unwind_loop ::
  "'c unwinder \<Rightarrow> nat \<Rightarrow> nat \<Rightarrow> 'c \<Rightarrow> addr list \<Rightarrow> addr list" where
  "unwind_loop U max_frames i cursor out_frames =
     (if i < max_frames then
        (let ip = unw_get_reg U cursor;
             out_frames' = out_frames @ [ip];
             (r, cursor') = unw_step U cursor
         in if r = 0 then out_frames'
            else unwind_loop U max_frames (i + 1) cursor' out_frames')
      else out_frames)"
  by pat_completeness auto
termination
  by (relation "measure (\<lambda>(U, max_frames, i, cursor, out_frames). max_frames - i)") auto

declare unwind_loop.simps [simp del]

definition backtraceLibUnwind :: "'c unwinder \<Rightarrow> nat \<Rightarrow> ucontext_t \<Rightarrow> addr list" where
  "backtraceLibUnwind U max_frames ctx =
     (let (r, cursor) = unw_init_local2 U ctx
      in if r \<ge> 0 then unwind_loop U max_frames 0 cursor [] else [])"

section \<open>\<^verbatim>\<open>signalToErrorMessage\<close>\<close>

text \<open>
  The three parts of the \<^verbatim>\<open>SIGSEGV\<close> case, in the order they are written: the address
  (\<^verbatim>\<open>nullptr == info.si_addr\<close> is the test for the address \<open>0\<close>), the access kind, which
  only x86-64 outside FreeBSD and macOS compiles in, and the inner \<^verbatim>\<open>switch\<close>.
\<close>

definition sigsegv_address :: "libc \<Rightarrow> siginfo_t \<Rightarrow> string" where
  "sigsegv_address L info =
     (if si_addr info = 0 then ''Address: NULL pointer.''
      else ''Address: '' @ show_ptr L (si_addr info))"

definition sigsegv_access :: "build \<Rightarrow> ucontext_t \<Rightarrow> string" where
  "sigsegv_access B ctx =
     (if target_arch B = X86_64 \<and> target_os B \<noteq> FreeBSD \<and> target_os B \<noteq> Apple then
        (let err_mask = gregs_REG_ERR ctx
         in if err_mask AND 2 \<noteq> 0 then '' Access: write.'' else '' Access: read.'')
      else [])"

definition sigsegv_code :: "sigdefs \<Rightarrow> int \<Rightarrow> string" where
  "sigsegv_code K code =
     (if code = SEGV_ACCERR K then
        '' Attempted access has violated the permissions assigned to the memory area.''
      else if code = SEGV_MAPERR K then '' Address not mapped to object.''
      else '' Unknown si_code.'')"

definition sigsegv_case :: "build \<Rightarrow> sigdefs \<Rightarrow> libc \<Rightarrow> siginfo_t \<Rightarrow> ucontext_t \<Rightarrow> string" where
  "sigsegv_case B K L info ctx =
     sigsegv_address L info @ sigsegv_access B ctx @ sigsegv_code K (si_code info)"

definition sigbus_case :: "sigdefs \<Rightarrow> int \<Rightarrow> string" where
  "sigbus_case K code =
     (if code = BUS_ADRALN K then ''Invalid address alignment.''
      else if code = BUS_ADRERR K then ''Non-existant physical address.''
      else if code = BUS_OBJERR K then ''Object specific hardware error.''
      else if BUS_MCEERR_AR K = Some code then ''Hardware memory error: action required.''
      else if BUS_MCEERR_AO K = Some code then ''Hardware memory error: action optional.''
      else ''Unknown si_code.'')"

definition sigill_case :: "sigdefs \<Rightarrow> int \<Rightarrow> string" where
  "sigill_case K code =
     (if code = ILL_ILLOPC K then ''Illegal opcode.''
      else if code = ILL_ILLOPN K then ''Illegal operand.''
      else if code = ILL_ILLADR K then ''Illegal addressing mode.''
      else if code = ILL_ILLTRP K then ''Illegal trap.''
      else if code = ILL_PRVOPC K then ''Privileged opcode.''
      else if code = ILL_PRVREG K then ''Privileged register.''
      else if code = ILL_COPROC K then ''Coprocessor error.''
      else if code = ILL_BADSTK K then ''Internal stack error.''
      else ''Unknown si_code.'')"

definition sigfpe_case :: "sigdefs \<Rightarrow> int \<Rightarrow> string" where
  "sigfpe_case K code =
     (if code = FPE_INTDIV K then ''Integer divide by zero.''
      else if code = FPE_INTOVF K then ''Integer overflow.''
      else if code = FPE_FLTDIV K then ''Floating point divide by zero.''
      else if code = FPE_FLTOVF K then ''Floating point overflow.''
      else if code = FPE_FLTUND K then ''Floating point underflow.''
      else if code = FPE_FLTRES K then ''Floating point inexact result.''
      else if code = FPE_FLTINV K then ''Floating point invalid operation.''
      else if code = FPE_FLTSUB K then ''Subscript out of range.''
      else ''Unknown si_code.'')"

definition signalToErrorMessage ::
  "build \<Rightarrow> sigdefs \<Rightarrow> libc \<Rightarrow> int \<Rightarrow> siginfo_t \<Rightarrow> ucontext_t \<Rightarrow> string" where
  "signalToErrorMessage B K L sig info ctx =
     (if sig = SIGSEGV K then sigsegv_case B K L info ctx
      else if sig = SIGBUS K then sigbus_case K (si_code info)
      else if sig = SIGILL K then sigill_case K (si_code info)
      else if sig = SIGFPE K then sigfpe_case K (si_code info)
      else [])"

text \<open>
  The classification tables as lists of code and phrase, and the lookup that answers
  \<^verbatim>\<open>Unknown si_code.\<close> for a code that no row has. The rows are in the order of the
  \<^verbatim>\<open>case\<close> labels; the phrase of \<^verbatim>\<open>BUS_ADRERR\<close> has the spelling of the specification,
  \<^verbatim>\<open>Non-existent\<close>.
\<close>

definition segv_phrases :: "sigdefs \<Rightarrow> (int \<times> string) list" where
  "segv_phrases K =
     [(SEGV_ACCERR K, ''Attempted access has violated the permissions assigned to the memory area.''),
      (SEGV_MAPERR K, ''Address not mapped to object.'')]"

definition bus_phrases :: "sigdefs \<Rightarrow> (int \<times> string) list" where
  "bus_phrases K =
     [(BUS_ADRALN K, ''Invalid address alignment.''),
      (BUS_ADRERR K, ''Non-existent physical address.''),
      (BUS_OBJERR K, ''Object specific hardware error.'')]
     @ (case BUS_MCEERR_AR K of
          Some c \<Rightarrow> [(c, ''Hardware memory error: action required.'')] | None \<Rightarrow> [])
     @ (case BUS_MCEERR_AO K of
          Some c \<Rightarrow> [(c, ''Hardware memory error: action optional.'')] | None \<Rightarrow> [])"

definition ill_phrases :: "sigdefs \<Rightarrow> (int \<times> string) list" where
  "ill_phrases K =
     [(ILL_ILLOPC K, ''Illegal opcode.''),
      (ILL_ILLOPN K, ''Illegal operand.''),
      (ILL_ILLADR K, ''Illegal addressing mode.''),
      (ILL_ILLTRP K, ''Illegal trap.''),
      (ILL_PRVOPC K, ''Privileged opcode.''),
      (ILL_PRVREG K, ''Privileged register.''),
      (ILL_COPROC K, ''Coprocessor error.''),
      (ILL_BADSTK K, ''Internal stack error.'')]"

definition fpe_phrases :: "sigdefs \<Rightarrow> (int \<times> string) list" where
  "fpe_phrases K =
     [(FPE_INTDIV K, ''Integer divide by zero.''),
      (FPE_INTOVF K, ''Integer overflow.''),
      (FPE_FLTDIV K, ''Floating point divide by zero.''),
      (FPE_FLTOVF K, ''Floating point overflow.''),
      (FPE_FLTUND K, ''Floating point underflow.''),
      (FPE_FLTRES K, ''Floating point inexact result.''),
      (FPE_FLTINV K, ''Floating point invalid operation.''),
      (FPE_FLTSUB K, ''Subscript out of range.'')]"

definition lookup_phrase :: "(int \<times> string) list \<Rightarrow> int \<Rightarrow> string" where
  "lookup_phrase table code =
     (case map_of table code of Some phrase \<Rightarrow> phrase | None \<Rightarrow> ''Unknown si_code.'')"

section \<open>\<^verbatim>\<open>getCallerAddress\<close> and \<^verbatim>\<open>getBacktraceFrames\<close>\<close>

definition getCallerAddress :: "build \<Rightarrow> ucontext_t \<Rightarrow> addr" where
  "getCallerAddress B ctx =
     (case target_arch B of
        X86_64 \<Rightarrow>
          (case target_os B of
             FreeBSD \<Rightarrow> mc_rip ctx
           | Apple \<Rightarrow> ss_rip ctx
           | Other_OS \<Rightarrow> gregs_REG_RIP ctx)
      | AArch64 \<Rightarrow> mc_pc ctx
      | Other_Arch \<Rightarrow> 0)"

definition getBacktraceFrames :: "build \<Rightarrow> 'c unwinder \<Rightarrow> ucontext_t \<Rightarrow> addr list" where
  "getBacktraceFrames B U ctx =
     (if USE_UNWIND B then backtraceLibUnwind U 50 ctx
      else (let caller_address = getCallerAddress B ctx
            in if caller_address \<noteq> 0 then [caller_address] else []))"

section \<open>\<^verbatim>\<open>backtraceFramesToString\<close>\<close>

text \<open>\<^verbatim>\<open>operator<<\<close> of a \<^verbatim>\<open>size_t\<close>: the decimal digits, most significant first.\<close>

definition digit_char :: "nat \<Rightarrow> char" where
  "digit_char d = ''0123456789'' ! d"

function show_nat :: "nat \<Rightarrow> string" where
  "show_nat n = (if n < 10 then [digit_char n] else show_nat (n div 10) @ [digit_char (n mod 10)])"
  by pat_completeness auto
termination
  by (relation "measure id") auto

declare show_nat.simps [simp del]

text \<open>
  \<^verbatim>\<open>strchr(s, c)\<close> for a character \<open>c\<close> other than the terminator: \<open>None\<close> is the null
  pointer, \<open>Some k\<close> the pointer \<open>s + k\<close> to the first occurrence. A string is the
  characters before its terminator.
\<close>

fun strchr :: "string \<Rightarrow> char \<Rightarrow> nat option" where
  "strchr [] c = None"
| "strchr (x # s) c = (if x = c then Some 0 else map_option Suc (strchr s c))"

text \<open>
  The condition of the first \<^verbatim>\<open>if\<close> of the loop body, with the pointers it leaves as
  offsets into the line: \<open>name_start\<close> after \<^verbatim>\<open>++name_start\<close>, and \<open>name_end\<close>, which
  was searched from the parenthesis on.
\<close>

definition find_name :: "string \<Rightarrow> (nat \<times> nat) option" where
  "find_name symbol =
     (case strchr symbol CHR ''('' of
        None \<Rightarrow> None
      | Some open_paren \<Rightarrow>
          (case strchr (drop open_paren symbol) CHR ''+'' of
             None \<Rightarrow> None
           | Some k \<Rightarrow> Some (open_paren + 1, open_paren + k)))"

text \<open>
  The body of the loop for frame \<open>i\<close>. The name handed to \<^verbatim>\<open>__cxa_demangle\<close> is the text
  from \<open>name_start\<close> up to \<open>name_end\<close>, where the terminator is written for the call.
  When nothing was found, \<open>demangled_name\<close> stays null and \<open>status\<close> stays \<open>0\<close>.
\<close>

definition render_frame :: "libc \<Rightarrow> nat \<Rightarrow> string \<Rightarrow> string \<Rightarrow> string" where
  "render_frame L i symbol delimiter =
     show_nat i @ ''. '' @
     (case find_name symbol of
        None \<Rightarrow> symbol @ delimiter
      | Some (name_start, name_end) \<Rightarrow>
          (let (demangled_name, status) =
                 cxa_demangle L (take (name_end - name_start) (drop name_start symbol))
           in case demangled_name of
                Some name \<Rightarrow>
                  if status = 0 then take name_start symbol @ name @ drop name_end symbol
                  else symbol @ delimiter
              | None \<Rightarrow> symbol @ delimiter))"

text \<open>
  The name handed to \<^verbatim>\<open>__cxa_demangle\<close> for a line, \<open>None\<close> when it is not called, and
  the two ways the call can fail the test \<^verbatim>\<open>nullptr != demangled_name && 0 == status\<close>.
\<close>

definition mangled_name :: "string \<Rightarrow> string option" where
  "mangled_name symbol =
     (case find_name symbol of
        None \<Rightarrow> None
      | Some (name_start, name_end) \<Rightarrow>
          Some (take (name_end - name_start) (drop name_start symbol)))"

definition demangle_failed :: "libc \<Rightarrow> string \<Rightarrow> bool" where
  "demangle_failed L symbol =
     (case mangled_name symbol of
        None \<Rightarrow> False
      | Some name \<Rightarrow> fst (cxa_demangle L name) = None \<or> snd (cxa_demangle L name) \<noteq> 0)"

text \<open>The lines of the first \<open>n\<close> frames, one for each frame, before they are written.\<close>

definition frame_lines :: "libc \<Rightarrow> string list \<Rightarrow> string \<Rightarrow> nat \<Rightarrow> string list" where
  "frame_lines L symbols delimiter n =
     map (\<lambda>k. render_frame L k (symbols ! k) delimiter) [0..<n]"

text \<open>
  Reading \<^verbatim>\<open>symbols[i]\<close> past the end of the array that \<^verbatim>\<open>backtrace_symbols\<close> returned has
  no defined behaviour: it is the error of the model.
\<close>

datatype fault = Symbols_overrun

function symbols_loop ::
  "libc \<Rightarrow> addr list \<Rightarrow> string list \<Rightarrow> string \<Rightarrow> nat \<Rightarrow> string \<Rightarrow> fault + string" where
  "symbols_loop L frames symbols delimiter i backtrace =
     (if i < length frames then
        (if i < length symbols then
           symbols_loop L frames symbols delimiter (i + 1)
             (backtrace @ render_frame L i (symbols ! i) delimiter)
         else Inl Symbols_overrun)
      else Inr backtrace)"
  by pat_completeness auto
termination
  by (relation "measure (\<lambda>(L, frames, symbols, delimiter, i, backtrace). length frames - i)") auto

declare symbols_loop.simps [simp del]

definition backtraceFramesToString :: "libc \<Rightarrow> addr list \<Rightarrow> string \<Rightarrow> fault + string" where
  "backtraceFramesToString L frames delimiter =
     (case backtrace_symbols L frames of
        None \<Rightarrow>
          Inr (if length frames > 0 then
                 ''No symbols could be found for backtrace starting at '' @ show_ptr L (frames ! 0)
               else [])
      | Some symbols \<Rightarrow> symbols_loop L frames symbols delimiter 0 [])"

section \<open>Concrete library behaviour, for evaluation\<close>

text \<open>
  A \<^verbatim>\<open>void *\<close> as the C++ library of Linux prints it: \<^verbatim>\<open>0x\<close> and the hexadecimal digits,
  and the single digit \<^verbatim>\<open>0\<close> for the null pointer.
\<close>

definition hex_char :: "nat \<Rightarrow> char" where
  "hex_char d = ''0123456789abcdef'' ! d"

function hex_digits :: "nat \<Rightarrow> string" where
  "hex_digits n = (if n < 16 then [hex_char n] else hex_digits (n div 16) @ [hex_char (n mod 16)])"
  by pat_completeness auto
termination
  by (relation "measure id") auto

declare hex_digits.simps [simp del]

definition hex_ptr :: "addr \<Rightarrow> string" where
  "hex_ptr a = (if a = 0 then ''0'' else ''0x'' @ hex_digits (unat a))"

text \<open>
  A symbol table that knows \<^verbatim>\<open>foo()\<close> and \<^verbatim>\<open>main\<close>, and a demangler that
  knows the mangled name of \<^verbatim>\<open>foo()\<close> and rejects every other name with status \<open>-2\<close>.
\<close>

definition demo_symbol :: "addr \<Rightarrow> string" where
  "demo_symbol a =
     (if a = 0x401136 then ''./prog(_Z3foov+0x10) [0x401136]''
      else if a = 0x401200 then ''./prog(main+0x2a) [0x401200]''
      else ''[0x'' @ hex_digits (unat a) @ '']'')"

definition demo_demangle :: "string \<Rightarrow> string option \<times> int" where
  "demo_demangle name = (if name = ''_Z3foov'' then (Some ''foo()'', 0) else (None, - 2))"

definition demo_libc :: libc where
  "demo_libc =
     \<lparr>show_ptr = hex_ptr,
      backtrace_symbols = (\<lambda>frames. Some (map demo_symbol frames)),
      cxa_demangle = demo_demangle\<rparr>"

text \<open>The same library when \<^verbatim>\<open>backtrace_symbols\<close> cannot allocate its result.\<close>

definition oom_libc :: libc where
  "oom_libc = demo_libc\<lparr>backtrace_symbols := (\<lambda>frames. None)\<rparr>"

text \<open>An unwinder whose step always succeeds and always stays at the same address.\<close>

definition looping_unwinder :: "unit unwinder" where
  "looping_unwinder =
     \<lparr>unw_init_local2 = (\<lambda>ctx. (0, ())),
      unw_get_reg = (\<lambda>cursor. 0x401136),
      unw_step = (\<lambda>cursor. (1, ()))\<rparr>"

text \<open>An unwinder whose cursor cannot be initialised.\<close>

definition broken_unwinder :: "unit unwinder" where
  "broken_unwinder = looping_unwinder\<lparr>unw_init_local2 := (\<lambda>ctx. (- 1, ()))\<rparr>"

definition demo_ctx :: ucontext_t where
  "demo_ctx = \<lparr>gregs_REG_RIP = 0x401136, gregs_REG_ERR = 6, mc_rip = 0, ss_rip = 0, mc_pc = 0\<rparr>"

text \<open>Builds without the unwinding library, and a context whose instruction pointer is zero.\<close>

definition no_unwind_x86_64 :: build where
  "no_unwind_x86_64 = \<lparr>USE_UNWIND = False, target_arch = X86_64, target_os = Other_OS\<rparr>"

definition no_unwind_other :: build where
  "no_unwind_other = \<lparr>USE_UNWIND = False, target_arch = Other_Arch, target_os = Other_OS\<rparr>"

definition zero_ip_ctx :: ucontext_t where
  "zero_ip_ctx = demo_ctx\<lparr>gregs_REG_RIP := 0\<rparr>"

section \<open>The unwinding loop\<close>

text \<open>Each iteration appends one address, and the counter bounds the iterations.\<close>

lemma length_unwind_loop:
  "length (unwind_loop U m i c out) \<le> length out + (m - i)"
proof (induction U m i c out rule: unwind_loop.induct)
  case (1 U m i c out)
  show ?case
  proof (cases "i < m")
    case False
    then show ?thesis by (simp add: unwind_loop.simps)
  next
    case True
    obtain r c' where st: "unw_step U c = (r, c')" by (cases "unw_step U c")
    show ?thesis
    proof (cases "r = 0")
      case True
      with \<open>i < m\<close> st show ?thesis
        by (subst unwind_loop.simps) simp
    next
      case False
      from "1.IH" [OF \<open>i < m\<close> refl refl refl st [symmetric] False]
      have "length (unwind_loop U m (i + 1) c' (out @ [unw_get_reg U c]))
              \<le> length (out @ [unw_get_reg U c]) + (m - (i + 1))" .
      with \<open>i < m\<close> st False show ?thesis
        by (subst unwind_loop.simps) simp
    qed
  qed
qed

text \<open>When no step ever returns \<open>0\<close>, the loop runs until the counter stops it.\<close>

lemma unwind_loop_never_stops:
  assumes step: "\<forall>c. fst (unw_step U c) \<noteq> 0"
  shows "length (unwind_loop U m i c out) = length out + (m - i)"
  using step
proof (induction U m i c out rule: unwind_loop.induct)
  case (1 U m i c out)
  show ?case
  proof (cases "i < m")
    case False
    then show ?thesis by (simp add: unwind_loop.simps)
  next
    case True
    obtain r c' where st: "unw_step U c = (r, c')" by (cases "unw_step U c")
    with "1.prems" have nz: "r \<noteq> 0" by (metis fst_conv)
    from "1.IH" [OF True refl refl refl st [symmetric] nz "1.prems"]
    have "length (unwind_loop U m (i + 1) c' (out @ [unw_get_reg U c]))
            = length (out @ [unw_get_reg U c]) + (m - (i + 1))" .
    with True st nz show ?thesis
      by (subst unwind_loop.simps) simp
  qed
qed

lemma length_backtraceLibUnwind: "length (backtraceLibUnwind U m ctx) \<le> m"
  using length_unwind_loop [of U m 0 _ "[]"]
  by (simp add: backtraceLibUnwind_def split: prod.splits)

section \<open>The frame walker\<close>

text \<open>
  C2. \<^verbatim>\<open>getBacktraceFrames\<close> returns at most 50 frames for every build, unwinder and
  machine context. The function is total: the loop of \<^verbatim>\<open>backtraceLibUnwind\<close> ends with its
  counter, also when the step of the unwinder never returns \<open>0\<close>, and then the result has
  exactly 50 frames.
\<close>

theorem getBacktraceFrames_bounded:
  "length (getBacktraceFrames B U ctx) \<le> 50
   \<and> (USE_UNWIND B \<and> 0 \<le> fst (unw_init_local2 U ctx) \<and> (\<forall>c. fst (unw_step U c) \<noteq> 0)
        \<longrightarrow> length (getBacktraceFrames B U ctx) = 50)"
proof
  show "length (getBacktraceFrames B U ctx) \<le> 50"
    using length_backtraceLibUnwind [of U 50 ctx]
    by (simp add: getBacktraceFrames_def Let_def)
next
  show "USE_UNWIND B \<and> 0 \<le> fst (unw_init_local2 U ctx) \<and> (\<forall>c. fst (unw_step U c) \<noteq> 0)
        \<longrightarrow> length (getBacktraceFrames B U ctx) = 50"
  proof
    assume h: "USE_UNWIND B \<and> 0 \<le> fst (unw_init_local2 U ctx) \<and> (\<forall>c. fst (unw_step U c) \<noteq> 0)"
    obtain r c where i: "unw_init_local2 U ctx = (r, c)" by (cases "unw_init_local2 U ctx")
    from h have "length (unwind_loop U 50 0 c []) = 50"
      using unwind_loop_never_stops [of U 50 0 c "[]"] by simp
    with h i show "length (getBacktraceFrames B U ctx) = 50"
      by (simp add: getBacktraceFrames_def backtraceLibUnwind_def)
  qed
qed

theorem getBacktraceFrames_bounded_witness:
  "USE_UNWIND linux_x86_64 \<and> 0 \<le> fst (unw_init_local2 looping_unwinder demo_ctx)
   \<and> (\<forall>c. fst (unw_step looping_unwinder c) \<noteq> 0)
   \<and> length (getBacktraceFrames linux_x86_64 looping_unwinder demo_ctx) = 50"
proof -
  have h: "USE_UNWIND linux_x86_64 \<and> 0 \<le> fst (unw_init_local2 looping_unwinder demo_ctx)
   \<and> (\<forall>c. fst (unw_step looping_unwinder c) \<noteq> 0)"
    by (simp add: linux_x86_64_def looping_unwinder_def)
  from getBacktraceFrames_bounded [of linux_x86_64 looping_unwinder demo_ctx] h
  show ?thesis by simp
qed

text \<open>
  C7. Without the unwinding library \<^verbatim>\<open>getBacktraceFrames\<close> returns the empty list or the
  one address of \<^verbatim>\<open>getCallerAddress\<close>; with the library and a cursor whose initialisation
  fails (a negative status) it returns the empty list. The result is a plain list in both
  cases: there is no error value.
\<close>

theorem getBacktraceFrames_degraded:
  "(\<not> USE_UNWIND B \<longrightarrow>
      getBacktraceFrames B U ctx = [] \<or> getBacktraceFrames B U ctx = [getCallerAddress B ctx])
   \<and> (USE_UNWIND B \<and> fst (unw_init_local2 U ctx) < 0 \<longrightarrow> getBacktraceFrames B U ctx = [])"
  by (auto simp add: getBacktraceFrames_def backtraceLibUnwind_def Let_def split: prod.splits)

theorem getBacktraceFrames_degraded_witness:
  "\<not> USE_UNWIND no_unwind_x86_64
   \<and> getBacktraceFrames no_unwind_x86_64 looping_unwinder demo_ctx
       = [getCallerAddress no_unwind_x86_64 demo_ctx]
   \<and> getCallerAddress no_unwind_x86_64 demo_ctx = 0x401136
   \<and> USE_UNWIND linux_x86_64 \<and> fst (unw_init_local2 broken_unwinder demo_ctx) < 0
   \<and> getBacktraceFrames linux_x86_64 broken_unwinder demo_ctx = []"
proof -
  have a: "\<not> USE_UNWIND no_unwind_x86_64"
    by (simp add: no_unwind_x86_64_def)
  have b: "USE_UNWIND linux_x86_64 \<and> fst (unw_init_local2 broken_unwinder demo_ctx) < 0"
    by (simp add: linux_x86_64_def broken_unwinder_def looping_unwinder_def)
  have c: "getCallerAddress no_unwind_x86_64 demo_ctx = 0x401136"
    by (simp add: getCallerAddress_def no_unwind_x86_64_def demo_ctx_def)
  have d: "getBacktraceFrames no_unwind_x86_64 looping_unwinder demo_ctx \<noteq> []"
    by (simp add: getBacktraceFrames_def a c)
  from getBacktraceFrames_degraded [of no_unwind_x86_64 looping_unwinder demo_ctx]
       getBacktraceFrames_degraded [of linux_x86_64 broken_unwinder demo_ctx] a b c d
  show ?thesis by simp
qed

text \<open>
  C9. In a build without the unwinding library the result is empty exactly when
  \<^verbatim>\<open>getCallerAddress\<close> returns the address \<open>0\<close>, which is also what it returns on an
  architecture that is neither x86-64 nor AArch64: an instruction pointer of value zero
  gives the same empty list as an unsupported architecture.
\<close>

theorem getBacktraceFrames_zero_ip:
  assumes "\<not> USE_UNWIND B"
  shows "(getBacktraceFrames B U ctx = [] \<longleftrightarrow> getCallerAddress B ctx = 0)
         \<and> (target_arch B = Other_Arch \<longrightarrow> getCallerAddress B ctx = 0)"
  using assms by (simp add: getBacktraceFrames_def getCallerAddress_def Let_def)

theorem getBacktraceFrames_zero_ip_witness:
  "\<not> USE_UNWIND no_unwind_x86_64 \<and> getCallerAddress no_unwind_x86_64 zero_ip_ctx = 0
   \<and> getBacktraceFrames no_unwind_x86_64 looping_unwinder zero_ip_ctx = []
   \<and> \<not> USE_UNWIND no_unwind_other \<and> target_arch no_unwind_other = Other_Arch
   \<and> getBacktraceFrames no_unwind_other looping_unwinder demo_ctx = []"
proof -
  have a: "\<not> USE_UNWIND no_unwind_x86_64"
    by (simp add: no_unwind_x86_64_def)
  have b: "getCallerAddress no_unwind_x86_64 zero_ip_ctx = 0"
    by (simp add: getCallerAddress_def no_unwind_x86_64_def zero_ip_ctx_def demo_ctx_def)
  have c: "\<not> USE_UNWIND no_unwind_other" "target_arch no_unwind_other = Other_Arch"
    by (simp_all add: no_unwind_other_def)
  from getBacktraceFrames_zero_ip [OF a, of looping_unwinder zero_ip_ctx]
       getBacktraceFrames_zero_ip [OF c(1), of looping_unwinder demo_ctx] a b c
  show ?thesis by simp
qed

section \<open>The signal cause interpreter\<close>

text \<open>Each inner \<^verbatim>\<open>switch\<close> is the lookup in its table.\<close>

lemma sigsegv_table: "sigsegv_code K code = '' '' @ lookup_phrase (segv_phrases K) code"
  by (simp add: sigsegv_code_def lookup_phrase_def segv_phrases_def)

lemma sigbus_table:
  "code \<noteq> BUS_ADRERR K \<Longrightarrow> sigbus_case K code = lookup_phrase (bus_phrases K) code"
  by (auto simp add: sigbus_case_def lookup_phrase_def bus_phrases_def split: option.splits)

lemma sigill_table: "sigill_case K code = lookup_phrase (ill_phrases K) code"
  by (simp add: sigill_case_def lookup_phrase_def ill_phrases_def)

lemma sigfpe_table: "sigfpe_case K code = lookup_phrase (fpe_phrases K) code"
  by (simp add: sigfpe_case_def lookup_phrase_def fpe_phrases_def)

lemma hex_digits_16: "hex_digits 16 = ''10''"
  by (simp add: hex_digits.simps hex_char_def)

text \<open>
  Apart from \<^verbatim>\<open>BUS_ADRERR\<close>, every code gives the phrase of its table, and
  \<^verbatim>\<open>Unknown si_code.\<close> when the table has no row for it. For \<^verbatim>\<open>SIGSEGV\<close> the phrase ends the
  message, after the address part, the access part and a space.
\<close>

lemma signalToErrorMessage_phrases:
  assumes "wf_sigdefs K"
  shows "(sig = SIGSEGV K \<longrightarrow>
            signalToErrorMessage B K L sig info ctx =
              sigsegv_address L info @ sigsegv_access B ctx @ '' ''
              @ lookup_phrase (segv_phrases K) (si_code info))
       \<and> (sig = SIGBUS K \<and> si_code info \<noteq> BUS_ADRERR K \<longrightarrow>
            signalToErrorMessage B K L sig info ctx = lookup_phrase (bus_phrases K) (si_code info))
       \<and> (sig = SIGILL K \<longrightarrow>
            signalToErrorMessage B K L sig info ctx = lookup_phrase (ill_phrases K) (si_code info))
       \<and> (sig = SIGFPE K \<longrightarrow>
            signalToErrorMessage B K L sig info ctx = lookup_phrase (fpe_phrases K) (si_code info))"
proof -
  from assms have d: "distinct [SIGSEGV K, SIGBUS K, SIGILL K, SIGFPE K]"
    by (simp add: wf_sigdefs_def)
  show ?thesis
    using d
    by (auto simp add: signalToErrorMessage_def sigsegv_case_def sigsegv_table sigbus_table
        sigill_table sigfpe_table)
qed

text \<open>
  C1 does not hold of the code. For \<^verbatim>\<open>SIGBUS\<close> with the code \<^verbatim>\<open>BUS_ADRERR\<close> (signal 7 and
  code 2 on Linux) the message is \<^verbatim>\<open>Non-existant physical address.\<close>, a misspelling in the
  literal of that \<^verbatim>\<open>case\<close>, where the table has \<^verbatim>\<open>Non-existent physical address.\<close>
\<close>

theorem signalToErrorMessage_bus_adrerr_misspelt:
  "signalToErrorMessage linux_x86_64 linux_sigdefs demo_libc 7
       \<lparr>si_addr = 16, si_code = 2\<rparr> demo_ctx
     = ''Non-existant physical address.''
   \<and> lookup_phrase (bus_phrases linux_sigdefs) 2 = ''Non-existent physical address.''
   \<and> signalToErrorMessage linux_x86_64 linux_sigdefs demo_libc 7
       \<lparr>si_addr = 16, si_code = 2\<rparr> demo_ctx
     \<noteq> lookup_phrase (bus_phrases linux_sigdefs) 2"
  by (simp add: signalToErrorMessage_def linux_sigdefs_def sigbus_case_def lookup_phrase_def
      bus_phrases_def)

text \<open>
  C4, as stated, fails: \<^verbatim>\<open>si_addr\<close> is a pointer, and the test \<^verbatim>\<open>nullptr == info.si_addr\<close>
  holds for the address of value zero, so a fault address of zero is reported as
  \<^verbatim>\<open>NULL pointer\<close> and its text \<^verbatim>\<open>0\<close> is nowhere in the message.
\<close>

theorem signalToErrorMessage_zero_address_counterexample:
  "hex_ptr 0 = ''0''
   \<and> signalToErrorMessage linux_x86_64 linux_sigdefs demo_libc 11
         \<lparr>si_addr = 0, si_code = 1\<rparr> demo_ctx
       = ''Address: NULL pointer. Access: write. Address not mapped to object.''
   \<and> \<not> sublist (hex_ptr 0)
         (signalToErrorMessage linux_x86_64 linux_sigdefs demo_libc 11
            \<lparr>si_addr = 0, si_code = 1\<rparr> demo_ctx)"
proof -
  have h: "hex_ptr 0 = ''0''"
    by (simp add: hex_ptr_def)
  have m: "signalToErrorMessage linux_x86_64 linux_sigdefs demo_libc 11
             \<lparr>si_addr = 0, si_code = 1\<rparr> demo_ctx
       = ''Address: NULL pointer. Access: write. Address not mapped to object.''"
    by (simp add: signalToErrorMessage_def linux_sigdefs_def sigsegv_case_def sigsegv_address_def
      sigsegv_access_def sigsegv_code_def linux_x86_64_def demo_ctx_def)
  have n: "\<not> sublist ''0'' ''Address: NULL pointer. Access: write. Address not mapped to object.''"
    by (simp add: sublist_Cons_right prefix_Cons)
  from h m n show ?thesis by simp
qed

text \<open>
  C4, amended. For \<^verbatim>\<open>SIGSEGV\<close> with a null \<^verbatim>\<open>si_addr\<close>, which is the address of value zero
  and the only form an absent address has, the message is \<^verbatim>\<open>Address: NULL pointer.\<close> followed
  by the access part and the phrase of the code: it contains \<^verbatim>\<open>NULL pointer\<close> and no text
  of an address is written. Every other address is written as its text after
  \<^verbatim>\<open>Address: \<close>.
\<close>

theorem signalToErrorMessage_segv_address:
  assumes "sig = SIGSEGV K"
  shows "(si_addr info = 0 \<longrightarrow>
            signalToErrorMessage B K L sig info ctx =
              ''Address: NULL pointer.'' @ sigsegv_access B ctx @ sigsegv_code K (si_code info)
            \<and> sublist ''NULL pointer'' (signalToErrorMessage B K L sig info ctx))
       \<and> (si_addr info \<noteq> 0 \<longrightarrow>
            signalToErrorMessage B K L sig info ctx =
              ''Address: '' @ show_ptr L (si_addr info) @ sigsegv_access B ctx
              @ sigsegv_code K (si_code info))"
proof -
  have "sublist ''NULL pointer'' (''Address: '' @ ''NULL pointer'' @ (''.'' @ s))" for s
    by (rule sublist_appendI)
  then have "sublist ''NULL pointer'' (''Address: NULL pointer.'' @ s)" for s
    by simp
  with assms show ?thesis
    by (simp add: signalToErrorMessage_def sigsegv_case_def sigsegv_address_def)
qed

theorem signalToErrorMessage_segv_address_witness:
  "(11::int) = SIGSEGV linux_sigdefs
   \<and> signalToErrorMessage linux_x86_64 linux_sigdefs demo_libc 11
         \<lparr>si_addr = 0, si_code = 1\<rparr> demo_ctx
       = ''Address: NULL pointer. Access: write. Address not mapped to object.''
   \<and> signalToErrorMessage linux_x86_64 linux_sigdefs demo_libc 11
         \<lparr>si_addr = 16, si_code = 1\<rparr> demo_ctx
       = ''Address: 0x10 Access: write. Address not mapped to object.''"
proof -
  have s: "(11::int) = SIGSEGV linux_sigdefs"
    by (simp add: linux_sigdefs_def)
  have p: "show_ptr demo_libc 16 = ''0x10''"
    by (simp add: demo_libc_def hex_ptr_def hex_digits_16)
  have a: "sigsegv_access linux_x86_64 demo_ctx = '' Access: write.''"
    by (simp add: sigsegv_access_def linux_x86_64_def demo_ctx_def)
  have c: "sigsegv_code linux_sigdefs 1 = '' Address not mapped to object.''"
    by (simp add: sigsegv_code_def linux_sigdefs_def)
  from signalToErrorMessage_segv_address
         [OF s, of "\<lparr>si_addr = 0, si_code = 1\<rparr>" linux_x86_64 demo_libc demo_ctx]
       signalToErrorMessage_segv_address
         [OF s, of "\<lparr>si_addr = 16, si_code = 1\<rparr>" linux_x86_64 demo_libc demo_ctx]
       s
  show ?thesis by (simp add: p a c)
qed

text \<open>
  C8. For a signal number that is none of \<^verbatim>\<open>SIGSEGV\<close>, \<^verbatim>\<open>SIGBUS\<close>, \<^verbatim>\<open>SIGILL\<close> and \<^verbatim>\<open>SIGFPE\<close>
  the message is empty, whatever \<^verbatim>\<open>siginfo_t\<close> and machine context come with it.
\<close>

theorem signalToErrorMessage_other_signal:
  assumes "sig \<notin> {SIGSEGV K, SIGBUS K, SIGILL K, SIGFPE K}"
  shows "signalToErrorMessage B K L sig info ctx = []"
  using assms by (simp add: signalToErrorMessage_def)

theorem signalToErrorMessage_other_signal_witness:
  "(6::int) \<notin> {SIGSEGV linux_sigdefs, SIGBUS linux_sigdefs, SIGILL linux_sigdefs,
               SIGFPE linux_sigdefs}
   \<and> signalToErrorMessage linux_x86_64 linux_sigdefs demo_libc 6
         \<lparr>si_addr = 16, si_code = 1\<rparr> demo_ctx = []"
proof -
  have h: "(6::int) \<notin> {SIGSEGV linux_sigdefs, SIGBUS linux_sigdefs, SIGILL linux_sigdefs,
                        SIGFPE linux_sigdefs}"
    by (simp add: linux_sigdefs_def)
  from signalToErrorMessage_other_signal [OF h] h show ?thesis by simp
qed

section \<open>The frame symbolizer\<close>

text \<open>What \<^verbatim>\<open>strchr\<close> finds, in terms of the characters of the line.\<close>

lemma strchr_None_iff: "strchr s c = None \<longleftrightarrow> c \<notin> set s"
  by (induction s) auto

lemma strchr_Some_drop: "strchr s c = Some k \<Longrightarrow> drop k s = dropWhile (\<lambda>x. x \<noteq> c) s"
  by (induction s arbitrary: k) (auto split: if_splits)

lemma find_name_None_iff:
  "find_name symbol = None \<longleftrightarrow>
     CHR ''('' \<notin> set symbol \<or> CHR ''+'' \<notin> set (dropWhile (\<lambda>x. x \<noteq> CHR ''('') symbol)"
proof (cases "strchr symbol CHR ''(''")
  case None
  then show ?thesis
    by (simp add: find_name_def strchr_None_iff [symmetric])
next
  case (Some k)
  then have "CHR ''('' \<in> set symbol"
    using strchr_None_iff [of symbol "CHR ''(''"] by simp
  moreover from Some have "drop k symbol = dropWhile (\<lambda>x. x \<noteq> CHR ''('') symbol"
    by (rule strchr_Some_drop)
  ultimately show ?thesis
    using Some strchr_None_iff [of "drop k symbol" "CHR ''+''"]
    by (auto simp add: find_name_def split: option.splits)
qed

lemma render_frame_no_name:
  "find_name symbol = None \<Longrightarrow>
     render_frame L i symbol delimiter = show_nat i @ ''. '' @ symbol @ delimiter"
  by (simp add: render_frame_def)

lemma render_frame_demangle_failed:
  assumes "find_name symbol = Some (name_start, name_end)"
    and "cxa_demangle L (take (name_end - name_start) (drop name_start symbol)) = (d, st)"
    and "d = None \<or> st \<noteq> 0"
  shows "render_frame L i symbol delimiter = show_nat i @ ''. '' @ symbol @ delimiter"
  using assms by (auto simp add: render_frame_def split: option.splits)

lemma render_frame_demangled:
  assumes "find_name symbol = Some (name_start, name_end)"
    and "cxa_demangle L (take (name_end - name_start) (drop name_start symbol)) = (Some name, 0)"
  shows "render_frame L i symbol delimiter =
           show_nat i @ ''. '' @ take name_start symbol @ name @ drop name_end symbol"
  using assms by (simp add: render_frame_def)

lemma render_frame_index: "prefix (show_nat i @ ''. '') (render_frame L i symbol delimiter)"
  by (simp add: render_frame_def)

text \<open>The loop appends the line of each remaining frame, in order.\<close>

lemma symbols_loop_lines:
  assumes "length symbols = length frames"
  shows "i \<le> length frames \<Longrightarrow>
     symbols_loop L frames symbols delimiter i acc =
       Inr (acc @ concat (map (\<lambda>k. render_frame L k (symbols ! k) delimiter) [i..<length frames]))"
  using assms
proof (induction L frames symbols delimiter i acc rule: symbols_loop.induct)
  case (1 L frames symbols delimiter i acc)
  show ?case
  proof (cases "i < length frames")
    case False
    with "1.prems" show ?thesis
      by (subst symbols_loop.simps) simp
  next
    case True
    with "1.prems" have s: "i < length symbols" by simp
    from True have le: "i + 1 \<le> length frames" by simp
    note ih = "1.IH" [OF True s le "1.prems"(2)]
    from True have up: "[i..<length frames] = i # [i + 1..<length frames]"
      by (simp add: upt_conv_Cons)
    from ih show ?thesis
      by (subst symbols_loop.simps) (simp add: True s up)
  qed
qed

lemma backtraceFramesToString_lines:
  assumes "backtrace_symbols L frames = Some symbols" and "length symbols = length frames"
  shows "backtraceFramesToString L frames delimiter =
           Inr (concat (map (\<lambda>k. render_frame L k (symbols ! k) delimiter) [0..<length frames]))"
  using assms symbols_loop_lines [OF assms(2), of 0 L delimiter "[]"]
  by (simp add: backtraceFramesToString_def)

lemma backtraceFramesToString_empty: "backtraceFramesToString L [] delimiter = Inr []"
  by (simp add: backtraceFramesToString_def symbols_loop.simps split: option.splits)

lemma show_nat_0: "show_nat 0 = ''0''"
  by (simp add: show_nat.simps digit_char_def)

text \<open>The lines of the concrete symbol table.\<close>

lemma find_name_foo: "find_name ''./prog(_Z3foov+0x10) [0x401136]'' = Some (7, 14)"
  by (simp add: find_name_def)

lemma find_name_main: "find_name ''./prog(main+0x2a) [0x401200]'' = Some (7, 11)"
  by (simp add: find_name_def)

lemma find_name_raw: "find_name ''[0x10]'' = None"
  by (simp add: find_name_def)

lemma demo_symbols:
  "demo_symbol 0x401136 = ''./prog(_Z3foov+0x10) [0x401136]''"
  "demo_symbol 0x401200 = ''./prog(main+0x2a) [0x401200]''"
  "demo_symbol 0x10 = ''[0x10]''"
  by (simp_all add: demo_symbol_def hex_digits.simps hex_char_def)

lemma render_foo:
  "render_frame demo_libc i ''./prog(_Z3foov+0x10) [0x401136]'' d
     = show_nat i @ ''. ./prog(foo()+0x10) [0x401136]''"
  by (simp add: render_frame_def find_name_foo demo_libc_def demo_demangle_def)

lemma render_main:
  "render_frame demo_libc i ''./prog(main+0x2a) [0x401200]'' d
     = show_nat i @ ''. ./prog(main+0x2a) [0x401200]'' @ d"
  by (simp add: render_frame_def find_name_main demo_libc_def demo_demangle_def)

lemma render_raw:
  "render_frame L i ''[0x10]'' d = show_nat i @ ''. [0x10]'' @ d"
  by (simp add: render_frame_def find_name_raw)

lemma show_nat_Suc0: "show_nat (Suc 0) = ''1''"
  by (simp add: show_nat.simps digit_char_def)


lemma length_frame_lines: "length (frame_lines L symbols delimiter n) = n"
  by (simp add: frame_lines_def)

lemma nth_frame_lines:
  "k < n \<Longrightarrow> frame_lines L symbols delimiter n ! k = render_frame L k (symbols ! k) delimiter"
  by (simp add: frame_lines_def)

lemma backtraceFramesToString_frame_lines:
  assumes "backtrace_symbols L frames = Some symbols" and "length symbols = length frames"
  shows "backtraceFramesToString L frames delimiter =
           Inr (concat (frame_lines L symbols delimiter (length frames)))"
  using backtraceFramesToString_lines [OF assms] by (simp add: frame_lines_def)

lemma render_frame_failed:
  "demangle_failed L symbol \<Longrightarrow>
     render_frame L i symbol delimiter = show_nat i @ ''. '' @ symbol @ delimiter"
  by (auto simp add: demangle_failed_def mangled_name_def render_frame_def
      split: option.splits prod.splits)

lemma demo_backtrace_symbols: "backtrace_symbols demo_libc frames = Some (map demo_symbol frames)"
  by (simp add: demo_libc_def)

lemma oom_backtrace_symbols: "backtrace_symbols oom_libc frames = None"
  by (simp add: oom_libc_def)

lemma oom_show_ptr: "show_ptr oom_libc 0x401136 = ''0x401136''"
  by (simp add: oom_libc_def demo_libc_def hex_ptr_def hex_digits.simps hex_char_def)

text \<open>
  C3 does not hold of the code. The branch of a demangled name writes the line up to the
  parenthesis, the demangled name and the rest of the line from \<^verbatim>\<open>+\<close> on, and no delimiter;
  only the other branch, \<^verbatim>\<open>backtrace << symbols[i] << delimiter\<close>, writes it. With a newline
  as delimiter the line of \<^verbatim>\<open>foo()\<close> runs into the line of the next frame.
\<close>

theorem backtraceFramesToString_demangled_no_delimiter:
  "backtraceFramesToString demo_libc [0x401136, 0x401200] [CHR 0x0A]
     = Inr (''0. ./prog(foo()+0x10) [0x401136]'' @ ''1. ./prog(main+0x2a) [0x401200]'' @ [CHR 0x0A])"
proof -
  have "backtrace_symbols demo_libc [0x401136, 0x401200]
          = Some [''./prog(_Z3foov+0x10) [0x401136]'', ''./prog(main+0x2a) [0x401200]'']"
    by (simp add: demo_backtrace_symbols demo_symbols)
  from backtraceFramesToString_frame_lines [OF this, of "[CHR 0x0A]"]
  show ?thesis
    by (simp add: frame_lines_def upt_rec render_foo render_main show_nat_0 show_nat_Suc0)
qed

text \<open>
  C5, as stated, fails: when \<^verbatim>\<open>backtrace_symbols\<close> returns the null pointer, the output for
  one frame is the notice that no symbols could be found, which is not a line of index 0.
\<close>

theorem backtraceFramesToString_no_symbols_counterexample:
  "backtraceFramesToString oom_libc [0x401136] [CHR 0x0A]
     = Inr ''No symbols could be found for backtrace starting at 0x401136''
   \<and> \<not> prefix (show_nat 0 @ ''. '') ''No symbols could be found for backtrace starting at 0x401136''"
  by (simp add: backtraceFramesToString_def oom_backtrace_symbols oom_show_ptr show_nat_0)

text \<open>
  C5, amended. For the empty list the output is the empty string. When
  \<^verbatim>\<open>backtrace_symbols\<close> returns its array, with one line for each frame, the output is the
  concatenation of exactly as many lines as there are frames, line \<open>k\<close> beginning with the
  index \<open>k\<close> and the separator. When it returns the null pointer, the output has no indexed
  line: it is empty for the empty list and otherwise the notice with the first address.
\<close>

theorem backtraceFramesToString_line_count:
  "backtraceFramesToString L [] delimiter = Inr []
   \<and> (backtrace_symbols L frames = Some symbols \<and> length symbols = length frames \<longrightarrow>
        backtraceFramesToString L frames delimiter
          = Inr (concat (frame_lines L symbols delimiter (length frames)))
        \<and> length (frame_lines L symbols delimiter (length frames)) = length frames
        \<and> (\<forall>k<length frames.
             prefix (show_nat k @ ''. '') (frame_lines L symbols delimiter (length frames) ! k)))
   \<and> (backtrace_symbols L frames = None \<longrightarrow>
        backtraceFramesToString L frames delimiter
          = Inr (if frames = [] then []
                 else ''No symbols could be found for backtrace starting at ''
                      @ show_ptr L (frames ! 0)))"
proof (intro conjI impI)
  show "backtraceFramesToString L [] delimiter = Inr []"
    by (rule backtraceFramesToString_empty)
next
  assume "backtrace_symbols L frames = Some symbols \<and> length symbols = length frames"
  then show "backtraceFramesToString L frames delimiter
          = Inr (concat (frame_lines L symbols delimiter (length frames)))"
    by (simp add: backtraceFramesToString_frame_lines)
next
  show "length (frame_lines L symbols delimiter (length frames)) = length frames"
    by (rule length_frame_lines)
next
  show "\<forall>k<length frames.
          prefix (show_nat k @ ''. '') (frame_lines L symbols delimiter (length frames) ! k)"
    by (simp add: nth_frame_lines render_frame_index)
next
  assume "backtrace_symbols L frames = None"
  then show "backtraceFramesToString L frames delimiter
          = Inr (if frames = [] then []
                 else ''No symbols could be found for backtrace starting at ''
                      @ show_ptr L (frames ! 0))"
    by (simp add: backtraceFramesToString_def)
qed

theorem backtraceFramesToString_line_count_witness:
  "backtrace_symbols demo_libc [0x401200, 0x10] = Some [''./prog(main+0x2a) [0x401200]'', ''[0x10]'']
   \<and> length [''./prog(main+0x2a) [0x401200]'', ''[0x10]''] = length [0x401200, 0x10 :: addr]
   \<and> backtraceFramesToString demo_libc [0x401200, 0x10] ''; ''
        = Inr (concat [''0. ./prog(main+0x2a) [0x401200]; '', ''1. [0x10]; ''])
   \<and> backtrace_symbols oom_libc [0x401136] = None
   \<and> backtraceFramesToString oom_libc [0x401136] ''; ''
        = Inr ''No symbols could be found for backtrace starting at 0x401136''"
proof -
  have a: "backtrace_symbols demo_libc [0x401200, 0x10]
             = Some [''./prog(main+0x2a) [0x401200]'', ''[0x10]'']"
    by (simp add: demo_backtrace_symbols demo_symbols)
  have l: "frame_lines demo_libc [''./prog(main+0x2a) [0x401200]'', ''[0x10]''] ''; '' (Suc (Suc 0))
             = [''0. ./prog(main+0x2a) [0x401200]; '', ''1. [0x10]; '']"
    by (simp add: frame_lines_def upt_rec render_main render_raw show_nat_0 show_nat_Suc0)
  note b = oom_backtrace_symbols [of "[0x401136]"]
  from backtraceFramesToString_line_count
         [of demo_libc "''; ''" "[0x401200, 0x10]" "[''./prog(main+0x2a) [0x401200]'', ''[0x10]'']"]
       backtraceFramesToString_line_count [of oom_libc "''; ''" "[0x401136]"]
       a b
  show ?thesis by (simp add: l oom_show_ptr)
qed

text \<open>
  C6, as stated, fails: when \<^verbatim>\<open>backtrace_symbols\<close> returns the null pointer, the resolution
  has failed for the list as a whole and no frame gets a line. For two frames the output
  is the notice with the first address alone, and no line of index 1 is in it.
\<close>

theorem backtraceFramesToString_no_symbols_two_frames_counterexample:
  "backtraceFramesToString oom_libc [0x401136, 0x401200] [CHR 0x0A]
     = Inr ''No symbols could be found for backtrace starting at 0x401136''
   \<and> \<not> sublist (show_nat 1 @ ''. '')
         ''No symbols could be found for backtrace starting at 0x401136''"
proof -
  have "\<not> sublist ''1. '' ''No symbols could be found for backtrace starting at 0x401136''"
    by (simp add: sublist_Cons_right prefix_Cons)
  then show ?thesis
    by (simp add: backtraceFramesToString_def oom_backtrace_symbols oom_show_ptr show_nat_Suc0)
qed

text \<open>
  C6, amended. When \<^verbatim>\<open>backtrace_symbols\<close> returns its array, with one line for each frame,
  the output is the lines of all frames in order, the line of frame \<open>k\<close> computed from the
  index \<open>k\<close> and the resolved text of frame \<open>k\<close> alone; and where \<^verbatim>\<open>__cxa_demangle\<close> returns the
  null pointer or a status other than \<open>0\<close>, that line is the index, the separator, the
  resolved text unchanged and the delimiter. When \<^verbatim>\<open>backtrace_symbols\<close> returns the null
  pointer, no frame gets a line: the output is empty for the empty list and otherwise the
  notice with the first address. The result is \<open>Inr\<close> in both cases: nothing fails.
\<close>

theorem backtraceFramesToString_demangle_failure:
  "(backtrace_symbols L frames = Some symbols \<and> length symbols = length frames \<longrightarrow>
      backtraceFramesToString L frames delimiter
        = Inr (concat (map (\<lambda>k. render_frame L k (symbols ! k) delimiter) [0..<length frames]))
      \<and> (\<forall>k<length frames. demangle_failed L (symbols ! k) \<longrightarrow>
           render_frame L k (symbols ! k) delimiter
             = show_nat k @ ''. '' @ symbols ! k @ delimiter))
   \<and> (backtrace_symbols L frames = None \<longrightarrow>
        backtraceFramesToString L frames delimiter
          = Inr (if frames = [] then []
                 else ''No symbols could be found for backtrace starting at ''
                      @ show_ptr L (frames ! 0)))"
proof (intro conjI impI)
  assume "backtrace_symbols L frames = Some symbols \<and> length symbols = length frames"
  then show "backtraceFramesToString L frames delimiter
        = Inr (concat (map (\<lambda>k. render_frame L k (symbols ! k) delimiter) [0..<length frames]))"
    by (simp add: backtraceFramesToString_lines)
next
  show "\<forall>k<length frames. demangle_failed L (symbols ! k) \<longrightarrow>
           render_frame L k (symbols ! k) delimiter
             = show_nat k @ ''. '' @ symbols ! k @ delimiter"
    by (simp add: render_frame_failed)
next
  assume "backtrace_symbols L frames = None"
  then show "backtraceFramesToString L frames delimiter
          = Inr (if frames = [] then []
                 else ''No symbols could be found for backtrace starting at ''
                      @ show_ptr L (frames ! 0))"
    by (simp add: backtraceFramesToString_def)
qed

theorem backtraceFramesToString_demangle_failure_witness:
  "backtrace_symbols demo_libc [0x401200, 0x401136]
     = Some [''./prog(main+0x2a) [0x401200]'', ''./prog(_Z3foov+0x10) [0x401136]'']
   \<and> length [''./prog(main+0x2a) [0x401200]'', ''./prog(_Z3foov+0x10) [0x401136]'']
       = length [0x401200, 0x401136 :: addr]
   \<and> demangle_failed demo_libc ''./prog(main+0x2a) [0x401200]''
   \<and> backtraceFramesToString demo_libc [0x401200, 0x401136] ''; ''
       = Inr (''0. ./prog(main+0x2a) [0x401200]; '' @ ''1. ./prog(foo()+0x10) [0x401136]'')
   \<and> backtrace_symbols oom_libc [0x401200, 0x401136] = None
   \<and> backtraceFramesToString oom_libc [0x401200, 0x401136] ''; ''
       = Inr (''No symbols could be found for backtrace starting at '' @ show_ptr oom_libc 0x401200)"
proof -
  have a: "backtrace_symbols demo_libc [0x401200, 0x401136]
     = Some [''./prog(main+0x2a) [0x401200]'', ''./prog(_Z3foov+0x10) [0x401136]'']"
    by (simp add: demo_backtrace_symbols demo_symbols)
  have f: "demangle_failed demo_libc ''./prog(main+0x2a) [0x401200]''"
    by (simp add: demangle_failed_def mangled_name_def find_name_main demo_libc_def
        demo_demangle_def)
  note b = oom_backtrace_symbols [of "[0x401200, 0x401136]"]
  from backtraceFramesToString_demangle_failure
         [of demo_libc "[0x401200, 0x401136]"
             "[''./prog(main+0x2a) [0x401200]'', ''./prog(_Z3foov+0x10) [0x401136]'']" "''; ''"]
       backtraceFramesToString_demangle_failure [of oom_libc "[0x401200, 0x401136]" _ "''; ''"]
       a b f
  show ?thesis
    by (simp add: upt_rec render_main render_foo show_nat_0 show_nat_Suc0)
qed

text \<open>
  C10. A resolved line with no \<^verbatim>\<open>(\<close>, or with no \<^verbatim>\<open>+\<close> from its first \<^verbatim>\<open>(\<close> on, hands no name
  to the demangler, and its line in the output is the index, the separator \<^verbatim>\<open>. \<close>, the
  resolved text unchanged and the delimiter, between the lines of the frames before and
  after it.
\<close>

theorem backtraceFramesToString_passthrough:
  assumes "backtrace_symbols L frames = Some symbols" and "length symbols = length frames"
    and "k < length frames"
    and "CHR ''('' \<notin> set (symbols ! k)
         \<or> CHR ''+'' \<notin> set (dropWhile (\<lambda>x. x \<noteq> CHR ''('') (symbols ! k))"
  shows "mangled_name (symbols ! k) = None
         \<and> backtraceFramesToString L frames delimiter
           = Inr (concat (take k (frame_lines L symbols delimiter (length frames)))
                  @ (show_nat k @ ''. '' @ symbols ! k @ delimiter)
                  @ concat (drop (Suc k) (frame_lines L symbols delimiter (length frames))))"
proof -
  from assms(4) have n: "find_name (symbols ! k) = None"
    by (simp add: find_name_None_iff)
  let ?ls = "frame_lines L symbols delimiter (length frames)"
  from assms(3) have "?ls = take k ?ls @ ?ls ! k # drop (Suc k) ?ls"
    by (simp add: id_take_nth_drop length_frame_lines)
  then have "concat ?ls = concat (take k ?ls) @ ?ls ! k @ concat (drop (Suc k) ?ls)"
    by (metis concat.simps(2) concat_append)
  moreover from assms(3) n have "?ls ! k = show_nat k @ ''. '' @ symbols ! k @ delimiter"
    by (simp add: nth_frame_lines render_frame_no_name)
  ultimately show ?thesis
    using n backtraceFramesToString_frame_lines [OF assms(1,2), of delimiter]
    by (simp add: mangled_name_def)
qed

theorem backtraceFramesToString_passthrough_witness:
  "backtrace_symbols demo_libc [0x401136, 0x10]
     = Some [''./prog(_Z3foov+0x10) [0x401136]'', ''[0x10]'']
   \<and> length [''./prog(_Z3foov+0x10) [0x401136]'', ''[0x10]''] = length [0x401136, 0x10 :: addr]
   \<and> CHR ''('' \<notin> set ([''./prog(_Z3foov+0x10) [0x401136]'', ''[0x10]''] ! 1)
   \<and> backtraceFramesToString demo_libc [0x401136, 0x10] ''; ''
       = Inr (''0. ./prog(foo()+0x10) [0x401136]'' @ ''1. [0x10]; '')"
proof -
  have a: "backtrace_symbols demo_libc [0x401136, 0x10]
     = Some [''./prog(_Z3foov+0x10) [0x401136]'', ''[0x10]'']"
    by (simp add: demo_backtrace_symbols demo_symbols)
  have b: "length [''./prog(_Z3foov+0x10) [0x401136]'', ''[0x10]'']
             = length [0x401136, 0x10 :: addr]"
    by simp
  have c: "(1::nat) < length [0x401136, 0x10 :: addr]"
    by simp
  have d: "CHR ''('' \<notin> set ([''./prog(_Z3foov+0x10) [0x401136]'', ''[0x10]''] ! 1)"
    by simp
  then have d': "CHR ''('' \<notin> set ([''./prog(_Z3foov+0x10) [0x401136]'', ''[0x10]''] ! 1)
     \<or> CHR ''+'' \<notin> set (dropWhile (\<lambda>x. x \<noteq> CHR ''('')
           ([''./prog(_Z3foov+0x10) [0x401136]'', ''[0x10]''] ! 1))"
    by (rule disjI1)
  have l: "frame_lines demo_libc [''./prog(_Z3foov+0x10) [0x401136]'', ''[0x10]''] ''; '' (Suc (Suc 0))
           = [''0. ./prog(foo()+0x10) [0x401136]'', ''1. [0x10]; '']"
    by (simp add: frame_lines_def upt_rec render_foo render_raw show_nat_0 show_nat_Suc0)
  from backtraceFramesToString_passthrough [OF a b c d', of "''; ''"] a d
  show ?thesis by (simp add: l show_nat_Suc0)
qed

end
